theory Spec2Isabelle
  imports Main
begin

section \<open>JavaScript values used by index.js\<close>

text \<open>
  Strings are byte strings (the UTF-8 encoding of the JavaScript string), so
  \<open>Buffer.from(s)\<close> is the list of the bytes of \<open>s\<close>.
\<close>

abbreviation DQ :: char where "DQ \<equiv> CHR 0x22"
abbreviation BSL :: char where "BSL \<equiv> CHR 0x5C"
abbreviation NL :: char where "NL \<equiv> CHR 0x0A"

text \<open>
  A JavaScript object is the list of its own properties in insertion order.
  Numbers are integers (timestamps in milliseconds, counters); the prototype
  chain and non-integer numbers are outside the model.
\<close>

type_synonym 'v js_object = "(string \<times> 'v) list"

datatype json =
    JNull
  | JBool bool
  | JNum int
  | JStr string
  | JArr "json list"
  | JObj "(string \<times> json) list"

text \<open>\<open>obj[k]\<close>: the property, or undefined (\<open>None\<close>).\<close>

definition get_prop :: "string \<Rightarrow> 'v js_object \<Rightarrow> 'v option" where
  "get_prop k obj = map_of obj k"

text \<open>
  \<open>obj[k] = v\<close>: an existing property keeps its position, a new one is appended.
\<close>

fun set_prop :: "string \<Rightarrow> 'v \<Rightarrow> 'v js_object \<Rightarrow> 'v js_object" where
  "set_prop k v [] = [(k, v)]"
| "set_prop k v (p # ps) = (if fst p = k then (k, v) # ps else p # set_prop k v ps)"

subsection \<open>Number and string conversion\<close>

text \<open>The decimal digit \<open>d < 10\<close> and the hexadecimal digit \<open>d < 16\<close>.\<close>

definition digit_char :: "nat \<Rightarrow> char" where
  "digit_char d = ''0123456789'' ! d"

fun digits :: "nat \<Rightarrow> string" where
  "digits n = (if n < 10 then [digit_char n] else digits (n div 10) @ [digit_char (n mod 10)])"

declare digits.simps [simp del]

text \<open>
  \<open>String(n)\<close> for an integer \<open>n\<close>, in the range where JavaScript prints an
  integer in plain decimal notation (\<open>|n| < 10^21\<close>).
\<close>

definition num_str :: "int \<Rightarrow> string" where
  "num_str n = (if n < 0 then CHR ''-'' # digits (nat (- n)) else digits (nat n))"

text \<open>\<open>Math.round(a / 1000)\<close> for an integer \<open>a\<close>: halves round towards plus infinity.\<close>

definition Math_round_div1000 :: "int \<Rightarrow> int" where
  "Math_round_div1000 a = (a + 500) div 1000"

fun join :: "string \<Rightarrow> string list \<Rightarrow> string" where
  "join sep [] = []"
| "join sep [x] = x"
| "join sep (x # y # ys) = x @ sep @ join sep (y # ys)"

definition hex_digit :: "nat \<Rightarrow> char" where
  "hex_digit d = ''0123456789abcdef'' ! d"

text \<open>The escape JSON.stringify applies to one character of a string.\<close>

definition escape_char :: "char \<Rightarrow> string" where
  "escape_char c =
     (if c = DQ then [BSL, DQ]
      else if c = BSL then [BSL, BSL]
      else if c = CHR 0x08 then [BSL, CHR ''b'']
      else if c = CHR 0x0C then [BSL, CHR ''f'']
      else if c = NL then [BSL, CHR ''n'']
      else if c = CHR 0x0D then [BSL, CHR ''r'']
      else if c = CHR 0x09 then [BSL, CHR ''t'']
      else if (of_char c :: nat) < 32
        then [BSL, CHR ''u'', CHR ''0'', CHR ''0'',
              hex_digit (of_char c div 16), hex_digit (of_char c mod 16)]
      else [c])"

definition quote :: "string \<Rightarrow> string" where
  "quote s = DQ # concat (map escape_char s) @ [DQ]"

text \<open>\<open>JSON.stringify(v)\<close> with no indentation.\<close>

fun JSON_stringify :: "json \<Rightarrow> string" where
  "JSON_stringify JNull = ''null''"
| "JSON_stringify (JBool b) = (if b then ''true'' else ''false'')"
| "JSON_stringify (JNum n) = num_str n"
| "JSON_stringify (JStr s) = quote s"
| "JSON_stringify (JArr xs) = ''['' @ join '','' (map JSON_stringify xs) @ '']''"
| "JSON_stringify (JObj kvs) =
     ''{'' @ join '','' (map (\<lambda>kv. quote (fst kv) @ '':'' @ JSON_stringify (snd kv)) kvs) @ ''}''"

text \<open>
  \<open>String(v)\<close>, the conversion a template literal applies; \<open>None\<close> is undefined.
\<close>

fun String_of :: "json \<Rightarrow> string" where
  "String_of JNull = ''null''"
| "String_of (JBool b) = (if b then ''true'' else ''false'')"
| "String_of (JNum n) = num_str n"
| "String_of (JStr s) = s"
| "String_of (JArr xs) =
     join '','' (map (\<lambda>x. if x = JNull then [] else String_of x) xs)"
| "String_of (JObj kvs) = ''[object Object]''"

definition template :: "json option \<Rightarrow> string" where
  "template v = (case v of None \<Rightarrow> ''undefined'' | Some x \<Rightarrow> String_of x)"

section \<open>toNdjson\<close>

text \<open>
  index.js, lines 93 to 100.
  \<open>data = Array.isArray(data) ? data : [data]\<close>, then \<open>forEach\<close> appends the
  serialisation of each item and a newline to \<open>outNdjson\<close>.
\<close>

definition toNdjson :: "json \<Rightarrow> string" where
  "toNdjson data =
     (let items = (case data of JArr xs \<Rightarrow> xs | _ \<Rightarrow> [data])
      in foldl (\<lambda>outNdjson item. outNdjson @ JSON_stringify item @ [NL]) [] items)"

section \<open>Configuration, events and collaborators\<close>

text \<open>config.json, as config.schema.json describes it.\<close>

record source =
  id_src :: string
  url :: string
  strategy :: string
  category :: "string list option"

record gcs =
  bucketName :: string

record config =
  source :: "source list"
  projectId :: string
  datasetId :: string
  pubsubTopicId :: string
  minTimeBetweenTriggers :: int
  outputFormat :: "string list option"
  gcs :: gcs

text \<open>The Pub/Sub trigger object: \<open>event.data\<close> is base64 text.\<close>

record event =
  data :: string

text \<open>One entry of state.json, and what checkEventState returns.\<close>

record event_state =
  created :: int

record event_result =
  active :: bool
  delta :: "int option"

datatype error = TypeError string | Error string

datatype buffer = Buffer string

definition Buffer_from :: "string \<Rightarrow> buffer" where
  "Buffer_from s = Buffer s"

text \<open>
  What \<open>file.save\<close> is given: the indented serialisation
  \<open>JSON.stringify(x, null, " ")\<close> of the state object or of the report, or the
  report object itself.
\<close>

datatype body =
    StatesText "event_state js_object"
  | ReportText "json js_object"
  | ReportObject "json js_object"

record load_metadata =
  sourceFormat :: string
  schema_fields :: json
  jobId :: string

datatype logged = Msg string | Err error

text \<open>
  Every call the program makes on the console and on its collaborators, with the
  arguments of the call.
  \<^item> \<open>Download bucket path destination\<close>, \<open>Save bucket path body contentType\<close>:
    Cloud Storage;
  \<^item> \<open>Publish topic message\<close>: Pub/Sub;
  \<^item> \<open>RunPagespeed url strategy category\<close>: the PageSpeed Insights API;
  \<^item> \<open>ReadFile path\<close>, \<open>WriteFile path content\<close>: the local file system;
  \<^item> \<open>BigQueryLoad dataset table file metadata\<close>: BigQuery.
\<close>

datatype effect =
    ConsoleLog string
  | ConsoleError logged
  | Download string string string
  | ReadFile string
  | Save string string body "string option"
  | Publish string buffer
  | RunPagespeed string string "string list"
  | WriteFile string string
  | BigQueryLoad string string string load_metadata

text \<open>
  The outcome of each collaborator call in one invocation: \<open>Some e\<close> or \<open>Inl e\<close> is a
  promise rejected with \<open>e\<close>. \<open>bqSchema\<close> is bigquery-schema.json,
  \<open>base64_toString s\<close> is \<open>Buffer.from(s, 'base64').toString()\<close>, \<open>uuidv1\<close> the
  identifier generated in this invocation, \<open>getTime\<close> the clock, and \<open>JSON_parse\<close>
  is \<open>JSON.parse\<close> on the text of a state file, whose entries are
  \<open>{created: number}\<close> as the program writes them.
\<close>

record env =
  bqSchema :: json
  base64_toString :: "string \<Rightarrow> string"
  uuidv1 :: string
  getTime :: int
  download :: "string \<Rightarrow> string \<Rightarrow> string \<Rightarrow> error option"
  readFile :: "string \<Rightarrow> error + string"
  JSON_parse :: "string \<Rightarrow> error + event_state js_object"
  save :: "string \<Rightarrow> string \<Rightarrow> body \<Rightarrow> error option"
  publish :: "string \<Rightarrow> buffer \<Rightarrow> error option"
  runpagespeed :: "string \<Rightarrow> string \<Rightarrow> string list \<Rightarrow> error + json js_object"
  writeFile :: "string \<Rightarrow> string \<Rightarrow> error option"
  load :: "string \<Rightarrow> string \<Rightarrow> string \<Rightarrow> load_metadata \<Rightarrow> error option"

section \<open>Promises\<close>

text \<open>
  An async call is the list of the calls it made and how its promise settled:
  \<open>Inl e\<close> rejected with \<open>e\<close>, \<open>Inr v\<close> resolved with \<open>v\<close>.
\<close>

type_synonym 'a promise = "effect list \<times> (error + 'a)"

text \<open>
  \<open>const x = await p; k(x)\<close>: a rejection of \<open>p\<close> is thrown at the await and the
  continuation does not run.
\<close>

definition await :: "'a promise \<Rightarrow> ('a \<Rightarrow> 'b promise) \<Rightarrow> 'b promise" where
  "await p k =
     (case p of
        (t, Inl e) \<Rightarrow> (t, Inl e)
      | (t, Inr x) \<Rightarrow> (case k x of (t', r) \<Rightarrow> (t @ t', r)))"

definition settled :: "error option \<Rightarrow> error + unit" where
  "settled r = (case r of Some e \<Rightarrow> Inl e | None \<Rightarrow> Inr ())"

text \<open>The first rejection, or every value.\<close>

fun collect :: "(error + 'a) list \<Rightarrow> error + 'a list" where
  "collect [] = Inr []"
| "collect (Inl e # rs) = Inl e"
| "collect (Inr x # rs) = (case collect rs of Inl e \<Rightarrow> Inl e | Inr xs \<Rightarrow> Inr (x # xs))"

text \<open>
  \<open>Promise.all(xs.map(async x => ...))\<close> for callbacks with one await. Each
  callback is (the calls it makes before its await, the calls it makes after its
  await has resolved, how it settles). \<open>map\<close> runs every callback up to its await,
  in order, before any of them continues; the callbacks are taken to settle in
  the order they were started.
\<close>

definition Promise_all :: "(effect list \<times> effect list \<times> (error + 'a)) list \<Rightarrow> 'a list promise" where
  "Promise_all cs =
     (concat (map fst cs) @ concat (map (\<lambda>c. fst (snd c)) cs),
      collect (map (\<lambda>c. snd (snd c)) cs))"

section \<open>getPagespeedInsightsReport\<close>

text \<open>
  index.js, lines 71 to 85. \<open>category || []\<close> replaces a missing category by the
  empty array; the three assignments annotate the response.
\<close>

definition getPagespeedInsightsReport ::
  "env \<Rightarrow> string \<Rightarrow> string \<Rightarrow> string \<Rightarrow> string list option \<Rightarrow> json js_object promise" where
  "getPagespeedInsightsReport env sid url' strategy' category' =
     (let category'' = (case category' of None \<Rightarrow> [] | Some c \<Rightarrow> c)
      in await
           ([ConsoleLog (sid @ '': Requesting Pagespeed Insight report for '' @ url' @ '' on '' @ strategy'),
             RunPagespeed url' strategy' category''],
            runpagespeed env url' strategy' category'')
           (\<lambda>psi.
              ([ConsoleLog (sid @ '': Pagespeed Insight report received for '' @ url' @ '' on '' @ strategy')],
               Inr (set_prop ''emulatedFormFactor'' (JStr strategy')
                     (set_prop ''url'' (JStr url')
                       (set_prop ''id'' (JStr sid) psi))))))"

section \<open>sendAllPubsubMsgs\<close>

text \<open>
  index.js, lines 108 to 118. Each callback logs, calls publish and awaits it;
  after a publish that resolved it logs again.
\<close>

definition sendAllPubsubMsgs :: "env \<Rightarrow> config \<Rightarrow> string list \<Rightarrow> unit list promise" where
  "sendAllPubsubMsgs env cfg ids =
     Promise_all (map (\<lambda>sid.
        (let msg = Buffer_from sid
         in ([ConsoleLog (sid @ '': Sending init PubSub message''),
              Publish (pubsubTopicId cfg) msg],
             (case publish env (pubsubTopicId cfg) msg of
                Some e \<Rightarrow> ([], Inl e)
              | None \<Rightarrow> ([ConsoleLog (sid @ '': Init PubSub message sent'')], Inr ())))))
        ids)"

section \<open>writeLogAndReportsToStorage\<close>

text \<open>
  index.js, lines 127 to 159. The switch on fileType: (mimetype, filePath,
  output) after it. The json case falls through to the default, which only breaks.
\<close>

definition switch_fileType :: "string \<Rightarrow> string \<Rightarrow> string option \<times> string \<times> bool" where
  "switch_fileType fileType filePath =
     (if fileType = ''csv'' then (None, filePath, False)
      else if fileType = ''json'' then (Some ''application/json'', filePath @ ''.json'', True)
      else (None, filePath, False))"

definition writeLogAndReportsToStorage :: "env \<Rightarrow> config \<Rightarrow> json js_object \<Rightarrow> string \<Rightarrow> unit promise" where
  "writeLogAndReportsToStorage env cfg obj sid =
     (let bucket = bucketName (gcs cfg);
          formats = (case outputFormat cfg of None \<Rightarrow> [] | Some fs \<Rightarrow> fs);
          dir = sid @ ''/'' @ template (get_prop ''emulatedFormFactor'' obj) @ ''/'';
          stamp = template (get_prop ''analysisUTCTimestamp'' obj)
      in await
           (Promise_all (map (\<lambda>fileType.
              (case switch_fileType fileType (dir @ ''report_'' @ stamp) of
                 (mimetype, filePath, output) \<Rightarrow>
                   if output
                   then ([ConsoleLog (sid @ '': Writing '' @ fileType @ '' report to bucket '' @ bucket),
                          Save bucket filePath (ReportObject obj) mimetype],
                         [], settled (save env bucket filePath (ReportObject obj)))
                   else ([], [], Inr ())))
              formats))
           (\<lambda>_.
              ([ConsoleLog (sid @ '': Writing log to bucket '' @ bucket),
                Save bucket (dir @ ''log_'' @ stamp @ ''.json'') (ReportText obj) (Some ''application/json'')],
               settled (save env bucket (dir @ ''log_'' @ stamp @ ''.json'') (ReportText obj)))))"

section \<open>checkEventState\<close>

text \<open>
  index.js, lines 169 to 193. The try block: download the state file, read it
  back and parse it. Any failure is caught by the empty catch and leaves \<open>eventStates = {}\<close>.
\<close>

definition load_eventStates :: "env \<Rightarrow> config \<Rightarrow> string \<Rightarrow> string \<Rightarrow> effect list \<times> event_state js_object" where
  "load_eventStates env cfg sid strategy' =
     (let destination = ''/tmp/state_'' @ sid @ ''_'' @ strategy' @ ''.json'';
          bucket = bucketName (gcs cfg);
          path = sid @ ''/'' @ strategy' @ ''/state.json''
      in case download env bucket path destination of
           Some e \<Rightarrow> ([Download bucket path destination], [])
         | None \<Rightarrow>
             (case readFile env destination of
                Inl e \<Rightarrow> ([Download bucket path destination, ReadFile destination], [])
              | Inr text \<Rightarrow>
                  (case JSON_parse env text of
                     Inl e \<Rightarrow> ([Download bucket path destination, ReadFile destination], [])
                   | Inr states \<Rightarrow> ([Download bucket path destination, ReadFile destination], states))))"

text \<open>
  \<open>id in eventStates && (timeNow - eventStates[id].created)\<close>: \<open>None\<close> is the
  value \<open>false\<close> of a missing record.
\<close>

definition state_delta :: "string \<Rightarrow> event_state js_object \<Rightarrow> int \<Rightarrow> int option" where
  "state_delta sid eventStates timeNow =
     (case get_prop sid eventStates of
        None \<Rightarrow> None
      | Some r \<Rightarrow> Some (timeNow - created r))"

text \<open>
  \<open>delta && delta < config.minTimeBetweenTriggers\<close>: \<open>false\<close> and the number 0
  are both falsy.
\<close>

definition delta_below :: "int option \<Rightarrow> int \<Rightarrow> bool" where
  "delta_below d T = (case d of None \<Rightarrow> False | Some x \<Rightarrow> x \<noteq> 0 \<and> x < T)"

definition checkEventState :: "env \<Rightarrow> config \<Rightarrow> string \<Rightarrow> string \<Rightarrow> int \<Rightarrow> event_result promise" where
  "checkEventState env cfg sid strategy' timeNow =
     (case load_eventStates env cfg sid strategy' of
        (t, eventStates) \<Rightarrow>
          (let d = state_delta sid eventStates timeNow;
               bucket = bucketName (gcs cfg);
               path = sid @ ''/'' @ strategy' @ ''/state.json''
           in if delta_below d (minTimeBetweenTriggers cfg)
              then (t, Inr \<lparr>active = True, delta = map_option Math_round_div1000 d\<rparr>)
              else
                (let eventStates' = set_prop sid \<lparr>created = timeNow\<rparr> eventStates
                 in await
                      (t @ [Save bucket path (StatesText eventStates') (Some ''application/json'')],
                       settled (save env bucket path (StatesText eventStates')))
                      (\<lambda>_. ([], Inr \<lparr>active = False, delta = None\<rparr>)))))"

section \<open>launchPagespeedInsights\<close>

datatype retval = Undefined | Array "unit list" | LoadResponse

text \<open>
  How the try block is left by a return statement: with a value, or with a
  promise that is returned without being awaited. The async function then
  settles as that promise does, outside the try block.
\<close>

datatype completion = Return retval | ReturnPromise "retval promise"

text \<open>
  index.js, lines 220 to 247: the steps for one resolved source, each awaited in
  turn but the last. The report is requested with \<open>(id, device, url)\<close>, as line
  234 has it, and without the category, which is read from the source and not
  used.
\<close>

definition run_source :: "env \<Rightarrow> config \<Rightarrow> source \<Rightarrow> string \<Rightarrow> load_metadata \<Rightarrow> completion promise" where
  "run_source env cfg src uuid metadata =
     (let sid = id_src src;
          url' = url src;
          device = strategy src;
          timeNow = getTime env
      in await
           ([ConsoleLog (sid @ '': Received message to start with URL '' @ url' @ '' on '' @ device)],
            Inr ())
        (\<lambda>_. await (checkEventState env cfg sid device timeNow)
        (\<lambda>eventState.
           if active eventState
           then ([ConsoleLog (sid @ '': Found active event on '' @ device @ '' (''
                    @ (case delta eventState of None \<Rightarrow> ''NaN'' | Some x \<Rightarrow> num_str x)
                    @ ''s < '' @ num_str (Math_round_div1000 (minTimeBetweenTriggers cfg))
                    @ ''s), aborting...'')],
                 Inr (Return Undefined))
           else await (getPagespeedInsightsReport env sid device url' None)
        (\<lambda>json. await (writeLogAndReportsToStorage env cfg json sid)
        (\<lambda>_. let json' = set_prop ''job_id'' (JStr uuid) json;
                 file = ''/tmp/'' @ uuid @ ''.json''
             in await
                  ([WriteFile file (toNdjson (JObj json'))],
                   settled (writeFile env file (toNdjson (JObj json'))))
        (\<lambda>_. ([ConsoleLog (sid @ '': BigQuery job with ID '' @ uuid @ '' starting for ''
                   @ url' @ '' on '' @ device)],
               Inr (ReturnPromise
                      ([BigQueryLoad (datasetId cfg) ''reports'' file metadata],
                       (case load env (datasetId cfg) ''reports'' file metadata of
                          Some e \<Rightarrow> Inl e
                        | None \<Rightarrow> Inr LoadResponse))))))))))"

text \<open>
  index.js, lines 205 to 218: the body of the try block up to the resolution of
  the source. \<open>[src] = source.filter(...)\<close> of an empty result leaves \<open>src\<close>
  undefined and \<open>src.id\<close> throws.
\<close>

definition launch_try :: "env \<Rightarrow> config \<Rightarrow> event \<Rightarrow> completion promise" where
  "launch_try env cfg ev =
     (let msg = base64_toString env (data ev);
          ids = map id_src (source cfg);
          uuid = uuidv1 env;
          metadata = \<lparr>sourceFormat = ''NEWLINE_DELIMITED_JSON'',
                      schema_fields = bqSchema env, jobId = uuid\<rparr>
      in if msg \<noteq> ''all'' \<and> msg \<notin> set ids
         then ([ConsoleError (Msg ''No valid message found!'')], Inr (Return Undefined))
         else if msg = ''all''
         then ([], Inr (ReturnPromise
                 (case sendAllPubsubMsgs env cfg ids of (t, r) \<Rightarrow> (t, map_sum (\<lambda>e. e) Array r))))
         else (case filter (\<lambda>obj. id_src obj = msg) (source cfg) of
                 [] \<Rightarrow> ([], Inl (TypeError ''Cannot read property id of undefined''))
               | src # _ \<Rightarrow> run_source env cfg src uuid metadata))"

text \<open>
  try ... catch: an error thrown in the block is logged with console.error and
  the function resolves; a promise returned from the block decides the
  outcome itself.
\<close>

definition launchPagespeedInsights :: "env \<Rightarrow> config \<Rightarrow> event \<Rightarrow> retval promise" where
  "launchPagespeedInsights env cfg ev =
     (case launch_try env cfg ev of
        (t, Inl e) \<Rightarrow> (t @ [ConsoleError (Err e)], Inr Undefined)
      | (t, Inr (Return v)) \<Rightarrow> (t, Inr v)
      | (t, Inr (ReturnPromise (t', r))) \<Rightarrow> (t @ t', r))"

section \<open>Reading a trace\<close>

definition saves :: "effect list \<Rightarrow> (string \<times> string \<times> body) list" where
  "saves t = concat (map (\<lambda>e. case e of Save b p c m \<Rightarrow> [(b, p, c)] | _ \<Rightarrow> []) t)"

definition publishes :: "effect list \<Rightarrow> (string \<times> buffer) list" where
  "publishes t = concat (map (\<lambda>e. case e of Publish tp m \<Rightarrow> [(tp, m)] | _ \<Rightarrow> []) t)"

text \<open>A call that writes, publishes, fetches a report or submits a load job.\<close>

fun downstream :: "effect \<Rightarrow> bool" where
  "downstream (Save b p c m) = True"
| "downstream (Publish tp m) = True"
| "downstream (RunPagespeed u s c) = True"
| "downstream (WriteFile p c) = True"
| "downstream (BigQueryLoad d tb f m) = True"
| "downstream _ = False"

section \<open>A test configuration\<close>

text \<open>
  A configuration and collaborators in the shape of those the repository's
  tests set up: two sources, every call resolving, a clock that reads \<open>now\<close>
  and a state file that parses to \<open>states\<close>. The decoder is the table of the
  payloads the tests send.
\<close>

definition mock_config :: config where
  "mock_config =
     \<lparr>source =
        [\<lparr>id_src = ''googlesearch'', url = ''https://www.google.com/'',
          strategy = ''mobile'', category = None\<rparr>,
         \<lparr>id_src = ''ebay'', url = ''https://www.ebay.com/'',
          strategy = ''desktop'', category = None\<rparr>],
      projectId = ''project'',
      datasetId = ''lighthouse'',
      pubsubTopicId = ''launch-lighthouse'',
      minTimeBetweenTriggers = 3600000,
      outputFormat = Some [''json''],
      gcs = \<lparr>bucketName = ''pagespeedinsights-reports''\<rparr>\<rparr>"

definition mock_base64 :: "string \<Rightarrow> string" where
  "mock_base64 s =
     (if s = ''YWxs'' then ''all''
      else if s = ''Z29vZ2xlc2VhcmNo'' then ''googlesearch''
      else if s = ''ZWJheQ=='' then ''ebay''
      else if s = ''aW52YWxpZF9tZXNzYWdl'' then ''invalid_message''
      else [])"

definition mock_env :: "event_state js_object \<Rightarrow> int \<Rightarrow> env" where
  "mock_env states now =
     \<lparr>bqSchema = JArr [],
      base64_toString = mock_base64,
      uuidv1 = ''6c84fb90-12c4-11e1-840d-7b25c5ee775a'',
      getTime = now,
      download = (\<lambda>bucket path destination. None),
      readFile = (\<lambda>path. Inr ''state''),
      JSON_parse = (\<lambda>text. Inr states),
      save = (\<lambda>bucket path content. None),
      publish = (\<lambda>topic msg. None),
      runpagespeed = (\<lambda>u s c. Inr [(''status'', JNum 200)]),
      writeFile = (\<lambda>path content. None),
      load = (\<lambda>dataset table file metadata. None)\<rparr>"

text \<open>A call of the fan-out path: a console log or a publish.\<close>

fun fan_out_step :: "effect \<Rightarrow> bool" where
  "fan_out_step (ConsoleLog m) = True"
| "fan_out_step (Publish tp m) = True"
| "fan_out_step _ = False"

text \<open>A report with the two fields the storage paths are built from.\<close>

definition mock_psi :: "json js_object" where
  "mock_psi = [(''analysisUTCTimestamp'', JStr ''2018-12-17T10:56:56.420Z''),
               (''emulatedFormFactor'', JStr ''desktop'')]"

text \<open>A configuration one of whose sources has the id \<open>all\<close>.\<close>

definition all_config :: config where
  "all_config = mock_config\<lparr>source :=
     [\<lparr>id_src = ''all'', url = ''https://www.example.com/'', strategy = ''desktop'', category = None\<rparr>,
      \<lparr>id_src = ''ebay'', url = ''https://www.ebay.com/'', strategy = ''desktop'', category = None\<rparr>]\<rparr>"

section \<open>Properties\<close>

subsection \<open>Traces, objects and evaluation\<close>

lemma foldl_append_lines:
  "foldl (\<lambda>out item. out @ f item @ [NL]) acc xs = acc @ concat (map (\<lambda>item. f item @ [NL]) xs)"
  by (induction xs arbitrary: acc) simp_all

lemma collect_resolved:
  "\<forall>r \<in> set rs. r = Inr () \<Longrightarrow> collect rs = Inr (map (\<lambda>_. ()) rs)"
proof (induction rs)
  case Nil
  show ?case by simp
next
  case (Cons r rs)
  then have "r = Inr ()" and "collect rs = Inr (map (\<lambda>_. ()) rs)" by simp_all
  then show ?case by simp
qed

lemma publishes_append: "publishes (t @ u) = publishes t @ publishes u"
  by (simp add: publishes_def)

lemma saves_append: "saves (t @ u) = saves t @ saves u"
  by (simp add: saves_def)

lemma no_downstream_no_saves: "list_all (\<lambda>e. \<not> downstream e) t \<Longrightarrow> saves t = []"
proof (induction t)
  case Nil
  show ?case by (simp add: saves_def)
next
  case (Cons e t)
  then have "saves t = []" by simp
  moreover from Cons.prems have "\<not> downstream e" by simp
  ultimately show ?case by (cases e) (simp_all add: saves_def)
qed

lemma get_set_prop_same: "get_prop k (set_prop k v obj) = Some v"
  by (induction obj) (simp_all add: get_prop_def)

lemma get_set_prop_other: "k \<noteq> k' \<Longrightarrow> get_prop k (set_prop k' v obj) = get_prop k obj"
  by (induction obj) (simp_all add: get_prop_def)

lemma map_sum_rejected: "map_sum (\<lambda>e. e) g r = Inl e \<longleftrightarrow> r = Inl e"
  by (cases r) simp_all

lemmas run_defs =
  launchPagespeedInsights_def launch_try_def run_source_def checkEventState_def
  load_eventStates_def state_delta_def delta_below_def get_prop_def
  getPagespeedInsightsReport_def writeLogAndReportsToStorage_def switch_fileType_def
  sendAllPubsubMsgs_def Promise_all_def await_def settled_def template_def
  Buffer_from_def Math_round_div1000_def Let_def

lemmas mock_defs = mock_env_def mock_config_def mock_base64_def

subsection \<open>toNdjson\<close>

text \<open>
  C9. For every array, toNdjson returns the concatenation, in order, of the JSON
  serialisation of each element followed by a newline; for the array of the three
  objects \<open>{item1: "value1"}\<close>, \<open>{item2: "value2"}\<close>, \<open>{item3: "value3"}\<close> it
  returns the three serialised objects, each followed by a newline.
\<close>

theorem toNdjson_lines:
  "toNdjson (JArr xs) = concat (map (\<lambda>item. JSON_stringify item @ [NL]) xs)
   \<and> toNdjson (JArr [JObj [(''item1'', JStr ''value1'')],
                      JObj [(''item2'', JStr ''value2'')],
                      JObj [(''item3'', JStr ''value3'')]])
     = ''{'' @ [DQ] @ ''item1'' @ [DQ] @ '':'' @ [DQ] @ ''value1'' @ [DQ] @ ''}'' @ [NL]
       @ ''{'' @ [DQ] @ ''item2'' @ [DQ] @ '':'' @ [DQ] @ ''value2'' @ [DQ] @ ''}'' @ [NL]
       @ ''{'' @ [DQ] @ ''item3'' @ [DQ] @ '':'' @ [DQ] @ ''value3'' @ [DQ] @ ''}'' @ [NL]"
proof
  show "toNdjson (JArr xs) = concat (map (\<lambda>item. JSON_stringify item @ [NL]) xs)"
    by (simp add: toNdjson_def foldl_append_lines)
next
  show "toNdjson (JArr [JObj [(''item1'', JStr ''value1'')],
                      JObj [(''item2'', JStr ''value2'')],
                      JObj [(''item3'', JStr ''value3'')]])
     = ''{'' @ [DQ] @ ''item1'' @ [DQ] @ '':'' @ [DQ] @ ''value1'' @ [DQ] @ ''}'' @ [NL]
       @ ''{'' @ [DQ] @ ''item2'' @ [DQ] @ '':'' @ [DQ] @ ''value2'' @ [DQ] @ ''}'' @ [NL]
       @ ''{'' @ [DQ] @ ''item3'' @ [DQ] @ '':'' @ [DQ] @ ''value3'' @ [DQ] @ ''}'' @ [NL]"
    by (simp add: toNdjson_def quote_def escape_char_def)
qed

text \<open>The property C9 on an array of an object and null.\<close>

theorem toNdjson_lines_witness:
  "toNdjson (JArr [JObj [(''job_id'', JStr ''a'')], JNull])
     = ''{'' @ [DQ] @ ''job_id'' @ [DQ] @ '':'' @ [DQ] @ ''a'' @ [DQ] @ ''}'' @ [NL] @ ''null'' @ [NL]"
  using toNdjson_lines [of "[JObj [(''job_id'', JStr ''a'')], JNull]"]
  by (simp add: quote_def escape_char_def)

subsection \<open>sendAllPubsubMsgs\<close>

lemma publishes_started:
  "publishes (concat (map (\<lambda>sid. [ConsoleLog (f sid), Publish tp (g sid)]) ids)) = map (\<lambda>sid. (tp, g sid)) ids"
  by (induction ids) (simp_all add: publishes_def)

lemma publishes_finished:
  "publishes (concat (map (\<lambda>sid. case r sid of Some e \<Rightarrow> [] | None \<Rightarrow> [ConsoleLog (f sid)]) ids)) = []"
  by (induction ids) (simp_all add: publishes_def split: option.splits)

lemma sendAll_trace:
  "fst (sendAllPubsubMsgs env cfg ids) =
     concat (map (\<lambda>sid. [ConsoleLog (sid @ '': Sending init PubSub message''),
                          Publish (pubsubTopicId cfg) (Buffer_from sid)]) ids)
     @ concat (map (\<lambda>sid. case publish env (pubsubTopicId cfg) (Buffer_from sid) of
                             Some e \<Rightarrow> [] | None \<Rightarrow> [ConsoleLog (sid @ '': Init PubSub message sent'')]) ids)"
  by (simp add: sendAllPubsubMsgs_def Promise_all_def Let_def comp_def option.case_distrib [of fst] cong: option.case_cong)

lemma sendAll_publishes:
  "publishes (fst (sendAllPubsubMsgs env cfg ids)) = map (\<lambda>sid. (pubsubTopicId cfg, Buffer_from sid)) ids"
  unfolding sendAll_trace publishes_append publishes_started publishes_finished by simp

lemma fan_out_started:
  "list_all fan_out_step (concat (map (\<lambda>sid. [ConsoleLog (f sid), Publish tp (g sid)]) ids))"
  by (induction ids) simp_all

lemma fan_out_finished:
  "list_all fan_out_step
     (concat (map (\<lambda>sid. case r sid of Some e \<Rightarrow> [] | None \<Rightarrow> [ConsoleLog (f sid)]) ids))"
  by (induction ids) (simp_all split: option.splits)

lemma sendAll_fan_out_only:
  "list_all fan_out_step (fst (sendAllPubsubMsgs env cfg ids))"
  unfolding sendAll_trace by (simp add: fan_out_started fan_out_finished)

text \<open>
  C8. For every list of ids, sendAllPubsubMsgs publishes exactly one message per
  id, in the order of the list, each carrying the bytes of that id, all to the
  configured topic, whatever the outcome of the publishes; for \<open>[a, b]\<close> these
  are two messages, \<open>Buffer(a)\<close> then \<open>Buffer(b)\<close>.
\<close>

theorem sendAllPubsubMsgs_one_per_id:
  "publishes (fst (sendAllPubsubMsgs env cfg ids)) = map (\<lambda>sid. (pubsubTopicId cfg, Buffer_from sid)) ids
   \<and> publishes (fst (sendAllPubsubMsgs env cfg [a, b]))
       = [(pubsubTopicId cfg, Buffer_from a), (pubsubTopicId cfg, Buffer_from b)]"
  using sendAll_publishes [of env cfg ids] sendAll_publishes [of env cfg "[a, b]"] by simp

text \<open>The property C8 on the test configuration.\<close>

theorem sendAllPubsubMsgs_one_per_id_witness:
  "publishes (fst (sendAllPubsubMsgs (mock_env [] 0) mock_config [''googlesearch'', ''ebay'']))
     = [(''launch-lighthouse'', Buffer ''googlesearch''), (''launch-lighthouse'', Buffer ''ebay'')]"
  using sendAllPubsubMsgs_one_per_id
    [of "mock_env [] 0" mock_config "[''googlesearch'', ''ebay'']" "''googlesearch''" "''ebay''"]
  by (simp add: mock_config_def Buffer_from_def)

subsection \<open>writeLogAndReportsToStorage\<close>

lemma writeLog_after_reports:
  assumes "snd (Promise_all cs) = Inr xs"
  shows "fst (await (Promise_all cs) (\<lambda>_. (t, r))) = fst (Promise_all cs) @ t"
  using assms by (cases "Promise_all cs") (simp add: await_def)

text \<open>
  C5. For every report and source id, writeLogAndReportsToStorage with
  outputFormat \<open>["json"]\<close> saves exactly two objects, \<open>report_<timestamp>.json\<close>
  then \<open>log_<timestamp>.json\<close>, both under \<open>{sourceId}/{formFactor}/\<close>; with
  outputFormat absent or empty it saves exactly one object, the log; and for every
  outputFormat the log is saved. The log is saved after the report saves have
  resolved, so the first and the last part are stated for a report save that
  resolves.
\<close>

theorem writeLogAndReportsToStorage_objects:
  fixes env :: env and cfg :: config and obj :: "json js_object" and sid :: string
  defines "bucket \<equiv> bucketName (gcs cfg)"
    and "dir \<equiv> sid @ ''/'' @ template (get_prop ''emulatedFormFactor'' obj) @ ''/''"
    and "stamp \<equiv> template (get_prop ''analysisUTCTimestamp'' obj)"
  shows "(outputFormat cfg = Some [''json'']
            \<and> save env bucket (dir @ ''report_'' @ stamp @ ''.json'') (ReportObject obj) = None
          \<longrightarrow> saves (fst (writeLogAndReportsToStorage env cfg obj sid))
                = [(bucket, dir @ ''report_'' @ stamp @ ''.json'', ReportObject obj),
                   (bucket, dir @ ''log_'' @ stamp @ ''.json'', ReportText obj)])
       \<and> (outputFormat cfg = None \<or> outputFormat cfg = Some []
          \<longrightarrow> saves (fst (writeLogAndReportsToStorage env cfg obj sid))
                = [(bucket, dir @ ''log_'' @ stamp @ ''.json'', ReportText obj)])
       \<and> (save env bucket (dir @ ''report_'' @ stamp @ ''.json'') (ReportObject obj) = None
          \<longrightarrow> (bucket, dir @ ''log_'' @ stamp @ ''.json'', ReportText obj)
                \<in> set (saves (fst (writeLogAndReportsToStorage env cfg obj sid))))"
proof (intro conjI impI)
  assume "outputFormat cfg = Some [''json'']
            \<and> save env bucket (dir @ ''report_'' @ stamp @ ''.json'') (ReportObject obj) = None"
  then show "saves (fst (writeLogAndReportsToStorage env cfg obj sid))
                = [(bucket, dir @ ''report_'' @ stamp @ ''.json'', ReportObject obj),
                   (bucket, dir @ ''log_'' @ stamp @ ''.json'', ReportText obj)]"
    by (simp add: writeLogAndReportsToStorage_def Let_def switch_fileType_def Promise_all_def
        await_def settled_def saves_def bucket_def dir_def stamp_def)
next
  assume "outputFormat cfg = None \<or> outputFormat cfg = Some []"
  then show "saves (fst (writeLogAndReportsToStorage env cfg obj sid))
                = [(bucket, dir @ ''log_'' @ stamp @ ''.json'', ReportText obj)]"
    by (auto simp: writeLogAndReportsToStorage_def Let_def Promise_all_def
        await_def settled_def saves_def bucket_def dir_def stamp_def)
next
  assume ok: "save env bucket (dir @ ''report_'' @ stamp @ ''.json'') (ReportObject obj) = None"
  define formats where "formats = (case outputFormat cfg of None \<Rightarrow> [] | Some fs \<Rightarrow> fs)"
  define cs :: "(effect list \<times> effect list \<times> (error + unit)) list" where
    "cs = map (\<lambda>fileType.
              (case switch_fileType fileType (dir @ ''report_'' @ stamp) of
                 (mimetype, filePath, output) \<Rightarrow>
                   if output
                   then ([ConsoleLog (sid @ '': Writing '' @ fileType @ '' report to bucket '' @ bucket),
                          Save bucket filePath (ReportObject obj) mimetype],
                         [], settled (save env bucket filePath (ReportObject obj)))
                   else ([], [], Inr ())))
              formats"
  have "\<forall>r \<in> set (map (\<lambda>c. snd (snd c)) cs). r = Inr ()"
    using ok by (auto simp: cs_def switch_fileType_def settled_def)
  then have "snd (Promise_all cs) = Inr (map (\<lambda>_. ()) (map (\<lambda>c. snd (snd c)) cs))"
    by (simp add: Promise_all_def collect_resolved)
  then have "fst (writeLogAndReportsToStorage env cfg obj sid)
               = fst (Promise_all cs)
                 @ [ConsoleLog (sid @ '': Writing log to bucket '' @ bucket),
                    Save bucket (dir @ ''log_'' @ stamp @ ''.json'') (ReportText obj) (Some ''application/json'')]"
    unfolding writeLogAndReportsToStorage_def Let_def
      bucket_def [symmetric] dir_def [symmetric] stamp_def [symmetric] formats_def [symmetric]
      cs_def [symmetric]
    by (rule writeLog_after_reports)
  then show "(bucket, dir @ ''log_'' @ stamp @ ''.json'', ReportText obj)
                \<in> set (saves (fst (writeLogAndReportsToStorage env cfg obj sid)))"
    by (simp add: saves_append) (simp add: saves_def)
qed

text \<open>The property C5 on the test configuration.\<close>

theorem writeLogAndReportsToStorage_objects_witness:
  "outputFormat mock_config = Some [''json'']
   \<and> save (mock_env [] 0) ''pagespeedinsights-reports''
        ''ebay/desktop/report_2018-12-17T10:56:56.420Z.json'' (ReportObject mock_psi) = None
   \<and> saves (fst (writeLogAndReportsToStorage (mock_env [] 0) mock_config mock_psi ''ebay''))
       = [(''pagespeedinsights-reports'', ''ebay/desktop/report_2018-12-17T10:56:56.420Z.json'',
           ReportObject mock_psi),
          (''pagespeedinsights-reports'', ''ebay/desktop/log_2018-12-17T10:56:56.420Z.json'',
           ReportText mock_psi)]
   \<and> outputFormat (mock_config\<lparr>outputFormat := None\<rparr>) = None
   \<and> saves (fst (writeLogAndReportsToStorage (mock_env [] 0) (mock_config\<lparr>outputFormat := None\<rparr>)
                   mock_psi ''ebay''))
       = [(''pagespeedinsights-reports'', ''ebay/desktop/log_2018-12-17T10:56:56.420Z.json'',
           ReportText mock_psi)]
   \<and> (''pagespeedinsights-reports'', ''ebay/desktop/log_2018-12-17T10:56:56.420Z.json'',
           ReportText mock_psi)
       \<in> set (saves (fst (writeLogAndReportsToStorage (mock_env [] 0)
                  (mock_config\<lparr>outputFormat := Some [''html'', ''json'', ''csv'']\<rparr>) mock_psi ''ebay'')))"
proof -
  have dir: "''ebay'' @ ''/'' @ template (get_prop ''emulatedFormFactor'' mock_psi) @ ''/'' = ''ebay/desktop/''"
    by (simp add: template_def get_prop_def mock_psi_def)
  have stamp: "template (get_prop ''analysisUTCTimestamp'' mock_psi) = ''2018-12-17T10:56:56.420Z''"
    by (simp add: template_def get_prop_def mock_psi_def)
  have fmt: "outputFormat mock_config = Some [''json'']"
    by (simp add: mock_config_def)
  have ok: "save (mock_env [] 0) b p c = None" for b p c
    by (simp add: mock_env_def)
  have bucket: "bucketName (gcs (mock_config\<lparr>outputFormat := f\<rparr>)) = ''pagespeedinsights-reports''" for f
    by (simp add: mock_config_def)
  have bucket': "bucketName (gcs mock_config) = ''pagespeedinsights-reports''"
    by (simp add: mock_config_def)
  note json = writeLogAndReportsToStorage_objects
    [where env = "mock_env [] 0" and cfg = mock_config and obj = mock_psi and sid = "''ebay''",
     unfolded dir stamp bucket']
  note absent = writeLogAndReportsToStorage_objects
    [where env = "mock_env [] 0" and cfg = "mock_config\<lparr>outputFormat := None\<rparr>" and obj = mock_psi
       and sid = "''ebay''", unfolded dir stamp bucket]
  note several = writeLogAndReportsToStorage_objects
    [where env = "mock_env [] 0" and cfg = "mock_config\<lparr>outputFormat := Some [''html'', ''json'', ''csv'']\<rparr>"
       and obj = mock_psi and sid = "''ebay''", unfolded dir stamp bucket]
  from json absent several fmt ok show ?thesis
    by simp
qed

subsection \<open>getPagespeedInsightsReport\<close>

text \<open>Called with its arguments in the order of its signature, the function annotates the report with them.\<close>

lemma getPagespeedInsightsReport_annotates:
  assumes "getPagespeedInsightsReport env sid u s c = (t, Inr psi)"
  shows "get_prop ''id'' psi = Some (JStr sid)
         \<and> get_prop ''url'' psi = Some (JStr u)
         \<and> get_prop ''emulatedFormFactor'' psi = Some (JStr s)"
  using assms
  by (auto simp: getPagespeedInsightsReport_def Let_def await_def get_set_prop_same get_set_prop_other
      split: sum.splits)

subsection \<open>checkEventState\<close>

text \<open>checkEventState returns active exactly when the loaded state has a record for the source whose age is not 0 and is below minTimeBetweenTriggers; then it has only read.\<close>

lemma checkEventState_active_iff:
  "(\<exists>r. snd (checkEventState env cfg sid strat now) = Inr r \<and> active r)
     \<longleftrightarrow> delta_below (state_delta sid (snd (load_eventStates env cfg sid strat)) now) (minTimeBetweenTriggers cfg)"
  by (auto simp: checkEventState_def Let_def await_def settled_def split: prod.splits option.splits)

lemma checkEventState_active_trace:
  assumes "checkEventState env cfg sid strat now = (t, Inr r)" and "active r"
  shows "t = fst (load_eventStates env cfg sid strat)"
  using assms
  by (auto simp: checkEventState_def Let_def await_def settled_def split: prod.splits option.splits if_splits)

lemma load_eventStates_reads_only:
  "list_all (\<lambda>e. \<not> downstream e) (fst (load_eventStates env cfg sid strat))"
  by (simp add: load_eventStates_def Let_def split: option.splits sum.splits)

lemma checkEventState_active:
  assumes "get_prop sid (snd (load_eventStates env cfg sid strat)) = Some r"
    and "now - created r \<noteq> 0"
    and "now - created r < minTimeBetweenTriggers cfg"
  shows "checkEventState env cfg sid strat now
           = (fst (load_eventStates env cfg sid strat),
              Inr \<lparr>active = True, delta = Some (Math_round_div1000 (now - created r))\<rparr>)"
  using assms
  by (cases "load_eventStates env cfg sid strat")
     (simp add: checkEventState_def Let_def state_delta_def delta_below_def)

lemma checkEventState_inactive:
  assumes "\<not> delta_below (state_delta sid (snd (load_eventStates env cfg sid strat)) now)
             (minTimeBetweenTriggers cfg)"
  shows "checkEventState env cfg sid strat now
           = (fst (load_eventStates env cfg sid strat)
              @ [Save (bucketName (gcs cfg)) (sid @ ''/'' @ strat @ ''/state.json'')
                   (StatesText (set_prop sid \<lparr>created = now\<rparr> (snd (load_eventStates env cfg sid strat))))
                   (Some ''application/json'')],
              case save env (bucketName (gcs cfg)) (sid @ ''/'' @ strat @ ''/state.json'')
                     (StatesText (set_prop sid \<lparr>created = now\<rparr> (snd (load_eventStates env cfg sid strat)))) of
                Some e \<Rightarrow> Inl e
              | None \<Rightarrow> Inr \<lparr>active = False, delta = None\<rparr>)"
  using assms
  by (cases "load_eventStates env cfg sid strat")
     (simp add: checkEventState_def Let_def await_def settled_def split: option.splits)

text \<open>
  C1, at a record created in the very millisecond of the call. The record
  exists and the elapsed time 0 is below minTimeBetweenTriggers, yet
  checkEventState saves the state again and returns inactive: the test
  \<open>delta && delta < config.minTimeBetweenTriggers\<close> takes the number 0 for a
  missing record.
\<close>

theorem checkEventState_zero_delta:
  "get_prop ''googlesearch'' [(''googlesearch'', \<lparr>created = 1000\<rparr>)] = Some \<lparr>created = 1000\<rparr>
   \<and> (1000 :: int) - created \<lparr>created = 1000\<rparr> < minTimeBetweenTriggers mock_config
   \<and> checkEventState (mock_env [(''googlesearch'', \<lparr>created = 1000\<rparr>)] 1000) mock_config
        ''googlesearch'' ''mobile'' 1000
     = ([Download ''pagespeedinsights-reports'' ''googlesearch/mobile/state.json''
           ''/tmp/state_googlesearch_mobile.json'',
         ReadFile ''/tmp/state_googlesearch_mobile.json'',
         Save ''pagespeedinsights-reports'' ''googlesearch/mobile/state.json''
           (StatesText [(''googlesearch'', \<lparr>created = 1000\<rparr>)]) (Some ''application/json'')],
        Inr \<lparr>active = False, delta = None\<rparr>)"
  by (simp add: run_defs mock_defs)

text \<open>
  C6. When the download of the state file, reading it back or parsing it fails,
  checkEventState takes the state to be empty and goes on: it saves a state
  holding only this source with the current time and, if the save resolves,
  returns inactive. When the save on the inactive path is rejected,
  checkEventState is rejected with the same error.
\<close>

theorem checkEventState_read_and_write_failures:
  fixes env :: env and cfg :: config and sid strat :: string and now :: int
  defines "bucket \<equiv> bucketName (gcs cfg)"
    and "path \<equiv> sid @ ''/'' @ strat @ ''/state.json''"
    and "destination \<equiv> ''/tmp/state_'' @ sid @ ''_'' @ strat @ ''.json''"
  shows "(download env bucket path destination \<noteq> None
            \<or> (\<exists>e. readFile env destination = Inl e)
            \<or> (\<exists>text e. readFile env destination = Inr text \<and> JSON_parse env text = Inl e)
          \<longrightarrow> snd (load_eventStates env cfg sid strat) = []
              \<and> checkEventState env cfg sid strat now
                  = (fst (load_eventStates env cfg sid strat)
                     @ [Save bucket path (StatesText [(sid, \<lparr>created = now\<rparr>)]) (Some ''application/json'')],
                     case save env bucket path (StatesText [(sid, \<lparr>created = now\<rparr>)]) of
                       Some e \<Rightarrow> Inl e
                     | None \<Rightarrow> Inr \<lparr>active = False, delta = None\<rparr>))
       \<and> (\<not> delta_below (state_delta sid (snd (load_eventStates env cfg sid strat)) now)
                (minTimeBetweenTriggers cfg)
            \<and> save env bucket path
                 (StatesText (set_prop sid \<lparr>created = now\<rparr> (snd (load_eventStates env cfg sid strat))))
               = Some err
          \<longrightarrow> snd (checkEventState env cfg sid strat now) = Inl err)"
proof (intro conjI impI)
  assume failed: "download env bucket path destination \<noteq> None
            \<or> (\<exists>e. readFile env destination = Inl e)
            \<or> (\<exists>text e. readFile env destination = Inr text \<and> JSON_parse env text = Inl e)"
  then show empty: "snd (load_eventStates env cfg sid strat) = []"
    by (auto simp: load_eventStates_def Let_def bucket_def path_def destination_def
        split: option.splits sum.splits)
  then show "checkEventState env cfg sid strat now
                  = (fst (load_eventStates env cfg sid strat)
                     @ [Save bucket path (StatesText [(sid, \<lparr>created = now\<rparr>)]) (Some ''application/json'')],
                     case save env bucket path (StatesText [(sid, \<lparr>created = now\<rparr>)]) of
                       Some e \<Rightarrow> Inl e
                     | None \<Rightarrow> Inr \<lparr>active = False, delta = None\<rparr>)"
    by (cases "load_eventStates env cfg sid strat")
       (simp add: checkEventState_def Let_def state_delta_def get_prop_def delta_below_def
          await_def settled_def bucket_def path_def split: option.splits)
next
  assume "\<not> delta_below (state_delta sid (snd (load_eventStates env cfg sid strat)) now)
                (minTimeBetweenTriggers cfg)
            \<and> save env bucket path
                 (StatesText (set_prop sid \<lparr>created = now\<rparr> (snd (load_eventStates env cfg sid strat))))
               = Some err"
  then show "snd (checkEventState env cfg sid strat now) = Inl err"
    by (cases "load_eventStates env cfg sid strat")
       (simp add: checkEventState_def Let_def await_def settled_def bucket_def path_def)
qed

text \<open>The property C6 on the test configuration.\<close>

theorem checkEventState_read_and_write_failures_witness:
  "download ((mock_env [(''googlesearch'', \<lparr>created = 1000\<rparr>)] 5000)
              \<lparr>download := (\<lambda>bucket path destination. Some (Error ''No such object''))\<rparr>)
      ''pagespeedinsights-reports'' ''googlesearch/mobile/state.json''
      ''/tmp/state_googlesearch_mobile.json'' \<noteq> None
   \<and> checkEventState ((mock_env [(''googlesearch'', \<lparr>created = 1000\<rparr>)] 5000)
              \<lparr>download := (\<lambda>bucket path destination. Some (Error ''No such object''))\<rparr>)
        mock_config ''googlesearch'' ''mobile'' 5000
       = ([Download ''pagespeedinsights-reports'' ''googlesearch/mobile/state.json''
             ''/tmp/state_googlesearch_mobile.json'',
           Save ''pagespeedinsights-reports'' ''googlesearch/mobile/state.json''
             (StatesText [(''googlesearch'', \<lparr>created = 5000\<rparr>)]) (Some ''application/json'')],
          Inr \<lparr>active = False, delta = None\<rparr>)
   \<and> \<not> delta_below (state_delta ''googlesearch''
          (snd (load_eventStates ((mock_env [] 5000)\<lparr>save := (\<lambda>bucket path content. Some (Error ''forbidden''))\<rparr>)
                  mock_config ''googlesearch'' ''mobile'')) 5000)
          (minTimeBetweenTriggers mock_config)
   \<and> save ((mock_env [] 5000)\<lparr>save := (\<lambda>bucket path content. Some (Error ''forbidden''))\<rparr>)
        ''pagespeedinsights-reports'' ''googlesearch/mobile/state.json''
        (StatesText [(''googlesearch'', \<lparr>created = 5000\<rparr>)]) = Some (Error ''forbidden'')
   \<and> snd (checkEventState ((mock_env [] 5000)\<lparr>save := (\<lambda>bucket path content. Some (Error ''forbidden''))\<rparr>)
            mock_config ''googlesearch'' ''mobile'' 5000)
       = Inl (Error ''forbidden'')"
proof -
  let ?missing = "(mock_env [(''googlesearch'', \<lparr>created = 1000\<rparr>)] 5000)
              \<lparr>download := (\<lambda>bucket path destination. Some (Error ''No such object''))\<rparr>"
  let ?readonly = "(mock_env [] 5000)\<lparr>save := (\<lambda>bucket path content. Some (Error ''forbidden''))\<rparr>"
  have bucket: "bucketName (gcs mock_config) = ''pagespeedinsights-reports''"
    by (simp add: mock_config_def)
  have path: "''googlesearch'' @ ''/'' @ ''mobile'' @ ''/state.json'' = ''googlesearch/mobile/state.json''"
    and dest: "''/tmp/state_'' @ ''googlesearch'' @ ''_'' @ ''mobile'' @ ''.json''
                = ''/tmp/state_googlesearch_mobile.json''"
    by simp_all
  have loaded1: "load_eventStates ?missing mock_config ''googlesearch'' ''mobile''
       = ([Download ''pagespeedinsights-reports'' ''googlesearch/mobile/state.json''
             ''/tmp/state_googlesearch_mobile.json''], [])"
    by (simp add: load_eventStates_def Let_def mock_defs)
  have loaded2: "load_eventStates ?readonly mock_config ''googlesearch'' ''mobile''
       = ([Download ''pagespeedinsights-reports'' ''googlesearch/mobile/state.json''
             ''/tmp/state_googlesearch_mobile.json'',
           ReadFile ''/tmp/state_googlesearch_mobile.json''], [])"
    by (simp add: load_eventStates_def Let_def mock_defs)
  have missing: "download ?missing b p d \<noteq> None" for b p d
    by (simp add: mock_env_def)
  have saved: "save ?missing b p c = None" for b p c
    by (simp add: mock_env_def)
  have refused: "save ?readonly b p c = Some (Error ''forbidden'')" for b p c
    by (simp add: mock_env_def)
  have fresh: "\<not> delta_below (state_delta ''googlesearch'' [] 5000) (minTimeBetweenTriggers mock_config)"
    by (simp add: delta_below_def state_delta_def get_prop_def)
  note rd = checkEventState_read_and_write_failures
    [where env = ?missing and cfg = mock_config and sid = "''googlesearch''" and strat = "''mobile''"
       and now = 5000, unfolded bucket path dest loaded1, THEN conjunct1]
  note wr = checkEventState_read_and_write_failures
    [where env = ?readonly and cfg = mock_config and sid = "''googlesearch''" and strat = "''mobile''"
       and now = 5000 and err = "Error ''forbidden''", unfolded bucket path dest loaded2, THEN conjunct2]
  from rd wr missing saved refused fresh loaded2 show ?thesis
    by simp
qed

subsection \<open>launchPagespeedInsights\<close>

text \<open>
  C7. When the decoded payload is neither \<open>all\<close> nor a configured source id,
  launchPagespeedInsights makes exactly one call, the error log
  \<open>No valid message found!\<close>, and resolves: it reads and writes no state, fetches
  no report, writes nothing, publishes nothing and submits no load job.
\<close>

theorem invalid_message_logged:
  assumes "base64_toString env (data ev) \<noteq> ''all''"
    and "base64_toString env (data ev) \<notin> set (map id_src (source cfg))"
  shows "launchPagespeedInsights env cfg ev
           = ([ConsoleError (Msg ''No valid message found!'')], Inr Undefined)"
  using assms by (simp add: launchPagespeedInsights_def launch_try_def Let_def)

text \<open>The property C7 on the test configuration.\<close>

theorem invalid_message_logged_witness:
  "base64_toString (mock_env [] 0) (data \<lparr>data = ''aW52YWxpZF9tZXNzYWdl''\<rparr>) \<noteq> ''all''
   \<and> base64_toString (mock_env [] 0) (data \<lparr>data = ''aW52YWxpZF9tZXNzYWdl''\<rparr>)
       \<notin> set (map id_src (source mock_config))
   \<and> launchPagespeedInsights (mock_env [] 0) mock_config \<lparr>data = ''aW52YWxpZF9tZXNzYWdl''\<rparr>
       = ([ConsoleError (Msg ''No valid message found!'')], Inr Undefined)"
proof -
  have h1: "base64_toString (mock_env [] 0) (data \<lparr>data = ''aW52YWxpZF9tZXNzYWdl''\<rparr>) \<noteq> ''all''"
    by (simp add: mock_defs)
  have h2: "base64_toString (mock_env [] 0) (data \<lparr>data = ''aW52YWxpZF9tZXNzYWdl''\<rparr>)
       \<notin> set (map id_src (source mock_config))"
    by (simp add: mock_defs)
  from h1 h2 invalid_message_logged [OF h1 h2] show ?thesis by simp
qed

text \<open>
  C10. When the decoded payload is \<open>all\<close>, launchPagespeedInsights is the fan-out:
  it publishes one message per configured source id, makes no call other than
  console logs and publishes, and settles as sendAllPubsubMsgs does. This holds
  for every configuration, also one that has a source whose id is \<open>all\<close>.
\<close>

theorem all_fans_out:
  assumes "base64_toString env (data ev) = ''all''"
  shows "launchPagespeedInsights env cfg ev
           = (fst (sendAllPubsubMsgs env cfg (map id_src (source cfg))),
              map_sum (\<lambda>e. e) Array (snd (sendAllPubsubMsgs env cfg (map id_src (source cfg)))))
         \<and> publishes (fst (launchPagespeedInsights env cfg ev))
             = map (\<lambda>src. (pubsubTopicId cfg, Buffer_from (id_src src))) (source cfg)
         \<and> list_all fan_out_step (fst (launchPagespeedInsights env cfg ev))"
proof -
  have run: "launchPagespeedInsights env cfg ev
           = (fst (sendAllPubsubMsgs env cfg (map id_src (source cfg))),
              map_sum (\<lambda>e. e) Array (snd (sendAllPubsubMsgs env cfg (map id_src (source cfg)))))"
    using assms by (simp add: launchPagespeedInsights_def launch_try_def Let_def split: prod.splits)
  show ?thesis
    unfolding run by (simp add: sendAll_publishes sendAll_fan_out_only comp_def)
qed

text \<open>The property C10 on the test configuration.\<close>

theorem all_fans_out_witness:
  "base64_toString (mock_env [] 0) (data \<lparr>data = ''YWxs''\<rparr>) = ''all''
   \<and> ''all'' \<in> set (map id_src (source all_config))
   \<and> launchPagespeedInsights (mock_env [] 0) all_config \<lparr>data = ''YWxs''\<rparr>
       = ([ConsoleLog ''all: Sending init PubSub message'',
           Publish ''launch-lighthouse'' (Buffer ''all''),
           ConsoleLog ''ebay: Sending init PubSub message'',
           Publish ''launch-lighthouse'' (Buffer ''ebay''),
           ConsoleLog ''all: Init PubSub message sent'',
           ConsoleLog ''ebay: Init PubSub message sent''],
          Inr (Array [(), ()]))
   \<and> publishes (fst (launchPagespeedInsights (mock_env [] 0) all_config \<lparr>data = ''YWxs''\<rparr>))
       = [(''launch-lighthouse'', Buffer ''all''), (''launch-lighthouse'', Buffer ''ebay'')]"
proof -
  have h: "base64_toString (mock_env [] 0) (data \<lparr>data = ''YWxs''\<rparr>) = ''all''"
    by (simp add: mock_defs)
  have ids: "map id_src (source all_config) = [''all'', ''ebay'']"
    by (simp add: all_config_def)
  have topic: "pubsubTopicId all_config = ''launch-lighthouse''"
    by (simp add: all_config_def mock_config_def)
  have sent: "sendAllPubsubMsgs (mock_env [] 0) all_config [''all'', ''ebay'']
       = ([ConsoleLog ''all: Sending init PubSub message'',
           Publish ''launch-lighthouse'' (Buffer ''all''),
           ConsoleLog ''ebay: Sending init PubSub message'',
           Publish ''launch-lighthouse'' (Buffer ''ebay''),
           ConsoleLog ''all: Init PubSub message sent'',
           ConsoleLog ''ebay: Init PubSub message sent''],
          Inr [(), ()])"
    by (simp add: sendAllPubsubMsgs_def Promise_all_def Buffer_from_def Let_def topic mock_env_def)
  have src: "source all_config =
     [\<lparr>id_src = ''all'', url = ''https://www.example.com/'', strategy = ''desktop'', category = None\<rparr>,
      \<lparr>id_src = ''ebay'', url = ''https://www.ebay.com/'', strategy = ''desktop'', category = None\<rparr>]"
    by (simp add: all_config_def)
  from all_fans_out [OF h, of all_config, unfolded ids sent]
  have "launchPagespeedInsights (mock_env [] 0) all_config \<lparr>data = ''YWxs''\<rparr>
       = ([ConsoleLog ''all: Sending init PubSub message'',
           Publish ''launch-lighthouse'' (Buffer ''all''),
           ConsoleLog ''ebay: Sending init PubSub message'',
           Publish ''launch-lighthouse'' (Buffer ''ebay''),
           ConsoleLog ''all: Init PubSub message sent'',
           ConsoleLog ''ebay: Init PubSub message sent''],
          Inr (Array [(), ()]))"
    and "publishes (fst (launchPagespeedInsights (mock_env [] 0) all_config \<lparr>data = ''YWxs''\<rparr>))
       = [(''launch-lighthouse'', Buffer ''all''), (''launch-lighthouse'', Buffer ''ebay'')]"
    by (simp_all add: src topic Buffer_from_def publishes_def)
  with h ids show ?thesis by simp
qed

lemma run_source_active:
  assumes chk: "checkEventState env cfg (id_src src) (strategy src) (getTime env) = (t, Inr r)"
    and act: "active r"
  shows "run_source env cfg src uuid metadata =
           (ConsoleLog (id_src src @ '': Received message to start with URL '' @ url src
                        @ '' on '' @ strategy src)
            # t
            @ [ConsoleLog (id_src src @ '': Found active event on '' @ strategy src @ '' (''
                    @ (case delta r of None \<Rightarrow> ''NaN'' | Some x \<Rightarrow> num_str x)
                    @ ''s < '' @ num_str (Math_round_div1000 (minTimeBetweenTriggers cfg))
                    @ ''s), aborting...'')],
            Inr (Return Undefined))"
  using assms by (simp add: run_source_def Let_def await_def)

lemma launch_try_resolved:
  assumes msg: "base64_toString env (data ev) \<noteq> ''all''"
    and src: "filter (\<lambda>obj. id_src obj = base64_toString env (data ev)) (source cfg) = src # rest"
  shows "launch_try env cfg ev =
           run_source env cfg src (uuidv1 env)
             \<lparr>sourceFormat = ''NEWLINE_DELIMITED_JSON'', schema_fields = bqSchema env,
              jobId = uuidv1 env\<rparr>"
proof -
  have "src \<in> set (filter (\<lambda>obj. id_src obj = base64_toString env (data ev)) (source cfg))"
    by (simp add: src)
  then have "base64_toString env (data ev) \<in> set (map id_src (source cfg))"
    by (auto intro: rev_image_eqI)
  with msg src show ?thesis
    by (simp add: launch_try_def Let_def)
qed

text \<open>
  C4. When the payload resolves to a source and checkEventState reports that
  source active, launchPagespeedInsights saves nothing to storage, so the state
  record stays as it was, and makes no downstream call: no report is fetched, no
  report or log object and no scratch file is written, nothing is published and
  no load job is submitted; the invocation resolves after the abort log.
\<close>

theorem debounced_aborts:
  assumes msg: "base64_toString env (data ev) \<noteq> ''all''"
    and src: "filter (\<lambda>obj. id_src obj = base64_toString env (data ev)) (source cfg) = src # rest"
    and chk: "checkEventState env cfg (id_src src) (strategy src) (getTime env) = (t, Inr r)"
    and act: "active r"
  shows "list_all (\<lambda>e. \<not> downstream e) (fst (launchPagespeedInsights env cfg ev))
         \<and> saves (fst (launchPagespeedInsights env cfg ev)) = []
         \<and> launchPagespeedInsights env cfg ev =
           (ConsoleLog (id_src src @ '': Received message to start with URL '' @ url src
                        @ '' on '' @ strategy src)
            # t
            @ [ConsoleLog (id_src src @ '': Found active event on '' @ strategy src @ '' (''
                    @ (case delta r of None \<Rightarrow> ''NaN'' | Some x \<Rightarrow> num_str x)
                    @ ''s < '' @ num_str (Math_round_div1000 (minTimeBetweenTriggers cfg))
                    @ ''s), aborting...'')],
            Inr Undefined)"
proof -
  have t: "list_all (\<lambda>e. \<not> downstream e) t"
    using checkEventState_active_trace [OF chk act] load_eventStates_reads_only by simp
  have run: "launchPagespeedInsights env cfg ev =
           (ConsoleLog (id_src src @ '': Received message to start with URL '' @ url src
                        @ '' on '' @ strategy src)
            # t
            @ [ConsoleLog (id_src src @ '': Found active event on '' @ strategy src @ '' (''
                    @ (case delta r of None \<Rightarrow> ''NaN'' | Some x \<Rightarrow> num_str x)
                    @ ''s < '' @ num_str (Math_round_div1000 (minTimeBetweenTriggers cfg))
                    @ ''s), aborting...'')],
            Inr Undefined)"
    unfolding launchPagespeedInsights_def launch_try_resolved [OF msg src]
      run_source_active [OF chk act] by simp
  have quiet: "list_all (\<lambda>e. \<not> downstream e) (fst (launchPagespeedInsights env cfg ev))"
    unfolding run using t by simp
  from quiet no_downstream_no_saves [OF quiet] run show ?thesis by blast
qed

text \<open>The property C4 on the test configuration.\<close>

theorem debounced_aborts_witness:
  "base64_toString (mock_env [(''googlesearch'', \<lparr>created = 1000\<rparr>)] 11499)
       (data \<lparr>data = ''Z29vZ2xlc2VhcmNo''\<rparr>) \<noteq> ''all''
   \<and> filter (\<lambda>obj. id_src obj = base64_toString (mock_env [(''googlesearch'', \<lparr>created = 1000\<rparr>)] 11499)
                                   (data \<lparr>data = ''Z29vZ2xlc2VhcmNo''\<rparr>))
            (source mock_config)
       = [\<lparr>id_src = ''googlesearch'', url = ''https://www.google.com/'',
           strategy = ''mobile'', category = None\<rparr>]
   \<and> checkEventState (mock_env [(''googlesearch'', \<lparr>created = 1000\<rparr>)] 11499) mock_config
        ''googlesearch'' ''mobile'' 11499
       = ([Download ''pagespeedinsights-reports'' ''googlesearch/mobile/state.json''
             ''/tmp/state_googlesearch_mobile.json'',
           ReadFile ''/tmp/state_googlesearch_mobile.json''],
          Inr \<lparr>active = True, delta = Some 10\<rparr>)
   \<and> list_all (\<lambda>e. \<not> downstream e)
        (fst (launchPagespeedInsights (mock_env [(''googlesearch'', \<lparr>created = 1000\<rparr>)] 11499)
                mock_config \<lparr>data = ''Z29vZ2xlc2VhcmNo''\<rparr>))
   \<and> saves (fst (launchPagespeedInsights (mock_env [(''googlesearch'', \<lparr>created = 1000\<rparr>)] 11499)
                mock_config \<lparr>data = ''Z29vZ2xlc2VhcmNo''\<rparr>)) = []
   \<and> launchPagespeedInsights (mock_env [(''googlesearch'', \<lparr>created = 1000\<rparr>)] 11499)
                mock_config \<lparr>data = ''Z29vZ2xlc2VhcmNo''\<rparr>
       = ([ConsoleLog ''googlesearch: Received message to start with URL https://www.google.com/ on mobile'',
           Download ''pagespeedinsights-reports'' ''googlesearch/mobile/state.json''
             ''/tmp/state_googlesearch_mobile.json'',
           ReadFile ''/tmp/state_googlesearch_mobile.json'',
           ConsoleLog ''googlesearch: Found active event on mobile (10s < 3600s), aborting...''],
          Inr Undefined)"
proof -
  let ?env = "mock_env [(''googlesearch'', \<lparr>created = 1000\<rparr>)] 11499"
  let ?src = "\<lparr>id_src = ''googlesearch'', url = ''https://www.google.com/'',
                strategy = ''mobile'', category = None\<rparr>"
  have msg: "base64_toString ?env (data \<lparr>data = ''Z29vZ2xlc2VhcmNo''\<rparr>) \<noteq> ''all''"
    by (simp add: mock_defs)
  have src: "filter (\<lambda>obj. id_src obj = base64_toString ?env (data \<lparr>data = ''Z29vZ2xlc2VhcmNo''\<rparr>))
               (source mock_config) = ?src # []"
    by (simp add: mock_defs)
  have chk: "checkEventState ?env mock_config (id_src ?src) (strategy ?src) (getTime ?env)
       = ([Download ''pagespeedinsights-reports'' ''googlesearch/mobile/state.json''
             ''/tmp/state_googlesearch_mobile.json'',
           ReadFile ''/tmp/state_googlesearch_mobile.json''],
          Inr \<lparr>active = True, delta = Some 10\<rparr>)"
    by (simp add: run_defs mock_defs)
  have act: "active \<lparr>active = True, delta = Some 10\<rparr>"
    by simp
  have now: "getTime ?env = 11499"
    by (simp add: mock_env_def)
  have threshold: "num_str (Math_round_div1000 (minTimeBetweenTriggers mock_config)) = ''3600''"
    and elapsed: "num_str 10 = ''10''"
    by (simp_all add: num_str_def digits.simps digit_char_def Math_round_div1000_def mock_config_def)
  from msg src chk debounced_aborts [OF msg src chk act] show ?thesis
    by (simp add: now threshold elapsed saves_def)
qed

text \<open>
  C2, for the source googlesearch with url \<open>https://www.google.com/\<close> and strategy
  \<open>mobile\<close>. launchPagespeedInsights calls
  \<open>getPagespeedInsightsReport(id, device, url)\<close> where the function takes
  \<open>(id, url, strategy, category)\<close>: the report handed to
  writeLogAndReportsToStorage has the strategy in its url field and the url as
  its emulated form factor, and the objects are saved under the url.
\<close>

theorem launch_swaps_url_and_strategy:
  "saves (fst (launchPagespeedInsights (mock_env [] 1000) mock_config \<lparr>data = ''Z29vZ2xlc2VhcmNo''\<rparr>))
     = [(''pagespeedinsights-reports'', ''googlesearch/mobile/state.json'',
         StatesText [(''googlesearch'', \<lparr>created = 1000\<rparr>)]),
        (''pagespeedinsights-reports'', ''googlesearch/https://www.google.com//report_undefined.json'',
         ReportObject [(''status'', JNum 200), (''id'', JStr ''googlesearch''),
                       (''url'', JStr ''mobile''),
                       (''emulatedFormFactor'', JStr ''https://www.google.com/'')]),
        (''pagespeedinsights-reports'', ''googlesearch/https://www.google.com//log_undefined.json'',
         ReportText [(''status'', JNum 200), (''id'', JStr ''googlesearch''),
                     (''url'', JStr ''mobile''),
                     (''emulatedFormFactor'', JStr ''https://www.google.com/'')])]"
  by (simp add: run_defs mock_defs saves_def)

text \<open>An error reaches the caller only through one of the two promises returned without await.\<close>

lemma launch_rejects_only_unawaited:
  assumes "snd (launchPagespeedInsights env cfg ev) = Inl e"
  shows "(base64_toString env (data ev) = ''all''
            \<and> snd (sendAllPubsubMsgs env cfg (map id_src (source cfg))) = Inl e)
         \<or> (\<exists>file md. load env (datasetId cfg) ''reports'' file md = Some e)"
  using assms
  by (auto simp: launchPagespeedInsights_def launch_try_def run_source_def Let_def await_def
      map_sum_rejected split: prod.splits sum.splits completion.splits if_splits list.splits option.splits)

text \<open>
  C3, for a publish and for a load job that are rejected. The promises of
  sendAllPubsubMsgs and of the BigQuery load are returned from the try block
  without await, so their rejection is not caught: launchPagespeedInsights is
  rejected with the error and console.error is not called.
\<close>

theorem launch_rejection_escapes:
  "launchPagespeedInsights
     ((mock_env [] 1000)\<lparr>publish := (\<lambda>topic msg. if msg = Buffer ''ebay'' then Some (Error ''unavailable'') else None)\<rparr>)
     mock_config \<lparr>data = ''YWxs''\<rparr>
   = ([ConsoleLog ''googlesearch: Sending init PubSub message'',
       Publish ''launch-lighthouse'' (Buffer ''googlesearch''),
       ConsoleLog ''ebay: Sending init PubSub message'',
       Publish ''launch-lighthouse'' (Buffer ''ebay''),
       ConsoleLog ''googlesearch: Init PubSub message sent''],
      Inl (Error ''unavailable''))
   \<and> snd (launchPagespeedInsights
            ((mock_env [] 1000)\<lparr>load := (\<lambda>dataset table file metadata. Some (Error ''quota''))\<rparr>)
            mock_config \<lparr>data = ''Z29vZ2xlc2VhcmNo''\<rparr>)
     = Inl (Error ''quota'')"
  by (simp add: run_defs mock_defs)

end
